theory Spec2Isabelle
  imports Main "HOL-Library.Word"
begin

section \<open>User models of the ERP backend (users.py)\<close>

text \<open>
  The source declares five pydantic classes (\<open>UserBase\<close>, \<open>UserCreate\<close>, \<open>UserUpdate\<close>,
  \<open>UserInDB\<close>, \<open>UserResponse\<close>), the helper type \<open>PyObjectId\<close> and the enumeration
  \<open>UserRole\<close>. The embedding keeps the three functions of the source as HOL functions
  (\<open>PyObjectId.validate\<close>, \<open>UserBase.normalise_email\<close>, \<open>UserCreate.password_strength\<close>)
  and turns every class into a record together with the function that builds it from an
  untyped field mapping, following the field declarations of the class.
\<close>

subsection \<open>Python values\<close>

text \<open>
  A Python \<open>str\<close> is a sequence of Unicode code points; \<open>lit\<close> gives the \<open>str\<close> of a
  literal. A \<open>datetime\<close> is a point in time; an \<open>ObjectId\<close> of the bson package wraps its
  binary form, which has 12 bytes. \<open>pyobj\<close> is the universe of values that a field mapping
  can hold.
\<close>

type_synonym str = "nat list"

definition lit :: "string \<Rightarrow> str" where
  "lit s = map of_char s"

type_synonym datetime = int

datatype ObjectId = ObjectId (binary: "8 word list")

datatype pyobj =
    PNone
  | PBool bool
  | PInt int
  | PStr str
  | PObjectId ObjectId
  | PDatetime datetime

subsection \<open>The built-in methods of str\<close>

text \<open>
  \<open>str.isspace\<close>, \<open>str.isdigit\<close> and \<open>str.isupper\<close> of a character, and \<open>str.lower\<close> and
  \<open>str.strip\<close>, follow the Unicode database of the Python runtime. For the code points
  below 256 (ASCII and Latin-1) the database is written out:
  \<^item> whitespace: U+0009 to U+000D, U+001C to U+001F, U+0020, U+0085 and U+00A0;
  \<^item> digits: \<open>0\<close> to \<open>9\<close> and the superscripts U+00B2, U+00B3 and U+00B9;
  \<^item> upper-case letters: \<open>A\<close> to \<open>Z\<close> and U+00C0 to U+00DE without U+00D7; each has its
    lower-case letter 32 code points above it, and no other character below 256 changes
    when it is lower-cased.
  For the code points from 256 on, the database is a parameter: the classification of a
  character, its lower-case mapping (one character can map to several) and the two
  properties \<open>cased\<close> and \<open>case_ignorable\<close>, which decide the lower-case form of the capital
  sigma U+03A3.
\<close>

record unicodedata =
  isspace_wide :: "nat \<Rightarrow> bool"
  isdigit_wide :: "nat \<Rightarrow> bool"
  isupper_wide :: "nat \<Rightarrow> bool"
  lower_wide :: "nat \<Rightarrow> str"
  cased :: "nat \<Rightarrow> bool"
  case_ignorable :: "nat \<Rightarrow> bool"

definition latin1_whitespace :: str where
  "latin1_whitespace = [0x09, 0x0A, 0x0B, 0x0C, 0x0D, 0x1C, 0x1D, 0x1E, 0x1F, 0x20, 0x85, 0xA0]"

definition latin1_digits :: str where
  "latin1_digits = lit ''0123456789'' @ [0xB2, 0xB3, 0xB9]"

definition latin1_isupper :: "nat \<Rightarrow> bool" where
  "latin1_isupper c = ((0x41 \<le> c \<and> c \<le> 0x5A) \<or> (0xC0 \<le> c \<and> c \<le> 0xDE \<and> c \<noteq> 0xD7))"

definition latin1_lower :: "nat \<Rightarrow> nat" where
  "latin1_lower c = (if latin1_isupper c then c + 32 else c)"

definition isspace :: "unicodedata \<Rightarrow> nat \<Rightarrow> bool" where
  "isspace D c = (if c < 256 then c \<in> set latin1_whitespace else isspace_wide D c)"

definition isdigit :: "unicodedata \<Rightarrow> nat \<Rightarrow> bool" where
  "isdigit D c = (if c < 256 then c \<in> set latin1_digits else isdigit_wide D c)"

definition isupper :: "unicodedata \<Rightarrow> nat \<Rightarrow> bool" where
  "isupper D c = (if c < 256 then latin1_isupper c else isupper_wide D c)"

text \<open>
  \<open>str.lower\<close> maps every character to its lower-case mapping, but for the capital sigma
  U+03A3: it becomes the final sigma U+03C2 when a cased character stands before it and
  none after it (characters that are \<open>case_ignorable\<close> skipped on both sides), and the
  small sigma U+03C3 otherwise. \<open>lower_from D seen s\<close> lower-cases \<open>s\<close>, where \<open>seen\<close>
  holds the characters that stand before \<open>s\<close>, the nearest first.
\<close>

definition lower_char :: "unicodedata \<Rightarrow> nat \<Rightarrow> str" where
  "lower_char D c = (if c < 256 then [latin1_lower c] else lower_wide D c)"

definition final_sigma :: "unicodedata \<Rightarrow> str \<Rightarrow> str \<Rightarrow> bool" where
  "final_sigma D seen rest =
     ((case dropWhile (case_ignorable D) seen of [] \<Rightarrow> False | p # _ \<Rightarrow> cased D p)
      \<and> (case dropWhile (case_ignorable D) rest of [] \<Rightarrow> True | n # _ \<Rightarrow> \<not> cased D n))"

fun lower_from :: "unicodedata \<Rightarrow> str \<Rightarrow> str \<Rightarrow> str" where
  "lower_from D seen [] = []"
| "lower_from D seen (c # s) =
     (if c = 0x3A3 then [if final_sigma D seen s then 0x3C2 else 0x3C3] else lower_char D c)
     @ lower_from D (c # seen) s"

definition lower :: "unicodedata \<Rightarrow> str \<Rightarrow> str" where
  "lower D s = lower_from D [] s"

definition lstrip :: "unicodedata \<Rightarrow> str \<Rightarrow> str" where
  "lstrip D s = dropWhile (isspace D) s"

definition rstrip :: "unicodedata \<Rightarrow> str \<Rightarrow> str" where
  "rstrip D s = rev (dropWhile (isspace D) (rev s))"

definition strip :: "unicodedata \<Rightarrow> str \<Rightarrow> str" where
  "strip D s = rstrip D (lstrip D s)"

subsection \<open>The bson package\<close>

text \<open>
  Modelled from the spec: \<open>str(ObjectId)\<close> and \<open>ObjectId.is_valid\<close> belong to the bson
  package, which is not part of the repository. The spec describes the wire form as a
  fixed-length hexadecimal string: \<open>str\<close> writes each of the 12 bytes as two lower-case
  hexadecimal digits, and a string is a valid identifier when it has 24 characters, all
  of them hexadecimal digits.
\<close>

definition hexdigits :: str where
  "hexdigits = lit ''0123456789abcdefABCDEF''"

definition hexlify :: "8 word \<Rightarrow> str" where
  "hexlify b = [hexdigits ! (unat b div 16), hexdigits ! (unat b mod 16)]"

definition str_ObjectId :: "ObjectId \<Rightarrow> str" where
  "str_ObjectId oid = concat (map hexlify (binary oid))"

definition ObjectId_is_valid :: "str \<Rightarrow> bool" where
  "ObjectId_is_valid s = (length s = 24 \<and> list_all (\<lambda>c. c \<in> set hexdigits) s)"

text \<open>An \<open>ObjectId\<close> object always holds 12 bytes.\<close>

definition wf_ObjectId :: "ObjectId \<Rightarrow> bool" where
  "wf_ObjectId oid = (length (binary oid) = 12)"

subsection \<open>Errors\<close>

text \<open>
  \<open>ValueError\<close> lists the \<open>ValueError\<close>s that are raised while a field is validated:
  \<^item> \<open>Invalid_ObjectId v\<close>: \<open>ValueError(f"Invalid ObjectId: {value!r}")\<close> of
    \<open>PyObjectId.validate\<close>, carrying the offending value;
  \<^item> \<open>Password_no_digit\<close>: \<open>"Password must contain at least one digit."\<close>;
  \<^item> \<open>Password_no_uppercase\<close>: \<open>"Password must contain at least one uppercase letter."\<close>;
  \<^item> \<open>Not_a_valid_email\<close>: the failure of the email-format rule of \<open>EmailStr\<close>.

  \<open>kind\<close> is the reason reported for one field. \<open>missing\<close> is the spec's MissingField,
  \<open>extra_forbidden\<close> its ForbiddenField, \<open>string_too_short\<close> and \<open>string_too_long\<close> its
  InvalidLength; \<open>value_error\<close> wraps a \<open>ValueError\<close> raised by a validator
  (InvalidIdentifier, WeakPassword, InvalidFormat).

  A construction fails either with a \<open>ValidationError\<close>, the composite error listing one
  entry (field name and reason) per failed field in field order, or with an exception
  that is not a validation error (\<open>exn\<close>) and leaves the construction at once.
\<close>

datatype ValueError =
    Invalid_ObjectId pyobj
  | Password_no_digit
  | Password_no_uppercase
  | Not_a_valid_email

datatype kind =
    missing
  | extra_forbidden
  | string_type
  | string_too_short
  | string_too_long
  | enum_type
  | bool_type
  | datetime_type
  | value_error ValueError

datatype exn = AttributeError | TypeError

type_synonym line_error = "string \<times> kind"

datatype failure = ValidationError "line_error list" | Uncaught exn

datatype 'a checked = Valid 'a | Invalid kind | Raised exn

subsection \<open>Helpers: PyObjectId\<close>

text \<open>
  \<^verbatim>\<open>
  def validate(cls, value: object) -> str:
      if isinstance(value, ObjectId):
          return str(value)
      if isinstance(value, str) and ObjectId.is_valid(value):
          return value
      raise ValueError(f"Invalid ObjectId: {value!r}")
  \<close>
\<close>

fun validate :: "pyobj \<Rightarrow> ValueError + str" where
  "validate (PObjectId oid) = Inr (str_ObjectId oid)"
| "validate (PStr s) = (if ObjectId_is_valid s then Inr s else Inl (Invalid_ObjectId (PStr s)))"
| "validate v = Inl (Invalid_ObjectId v)"

subsection \<open>Enums\<close>

datatype UserRole = ADMIN | PROJECT_LEAD | MEMBER | INTERN | VIEWER

fun UserRole_value :: "UserRole \<Rightarrow> str" where
  "UserRole_value ADMIN = lit ''admin''"
| "UserRole_value PROJECT_LEAD = lit ''project_lead''"
| "UserRole_value MEMBER = lit ''member''"
| "UserRole_value INTERN = lit ''intern''"
| "UserRole_value VIEWER = lit ''viewer''"

definition UserRole_members :: "UserRole list" where
  "UserRole_members = [ADMIN, PROJECT_LEAD, MEMBER, INTERN, VIEWER]"

subsection \<open>Field validators of the source\<close>

text \<open>
  \<^verbatim>\<open>
  def normalise_email(cls, v: str) -> str:
      return v.strip().lower()
  \<close>
\<close>

definition normalise_email :: "unicodedata \<Rightarrow> str \<Rightarrow> str" where
  "normalise_email D v = lower D (strip D v)"

text \<open>
  \<^verbatim>\<open>
  def password_strength(cls, v: str) -> str:
      if not any(c.isdigit() for c in v):
          raise ValueError("Password must contain at least one digit.")
      if not any(c.isupper() for c in v):
          raise ValueError("Password must contain at least one uppercase letter.")
      return v
  \<close>
\<close>

definition password_strength :: "unicodedata \<Rightarrow> str \<Rightarrow> ValueError + str" where
  "password_strength D v =
     (if \<not> list_ex (isdigit D) v then Inl Password_no_digit
      else if \<not> list_ex (isupper D) v then Inl Password_no_uppercase
      else Inr v)"

subsection \<open>The pydantic package\<close>

text \<open>
  The classes of the source are pydantic (version 2) models: a field declaration fixes
  the type of the field, whether it is required or has a default, and its constraints.
  What pydantic brings from outside the repository is taken as a parameter:
  \<^item> \<open>EmailStr\<close>, the email-format rule: it maps a \<open>str\<close> to the address it accepts
    (as the rule returns it) or rejects it;
  \<^item> \<open>bool_lax\<close> and \<open>datetime_lax\<close>, the conversions that pydantic applies to a
    value that is not yet a \<open>bool\<close> or a \<open>datetime\<close>.
  Every theorem below holds for all such parameters.
\<close>

record pydantic =
  EmailStr :: "str \<Rightarrow> str option"
  bool_lax :: "pyobj \<Rightarrow> bool option"
  datetime_lax :: "pyobj \<Rightarrow> datetime option"

type_synonym fields = "string \<rightharpoonup> pyobj"

text \<open>The validators of the field types.\<close>

fun str_schema :: "pyobj \<Rightarrow> str checked" where
  "str_schema (PStr s) = Valid s"
| "str_schema v = Invalid string_type"

text \<open>\<open>Field(min_length=lo, max_length=hi)\<close> on a \<open>str\<close>.\<close>

definition str_min_length :: "nat \<Rightarrow> str \<Rightarrow> str checked" where
  "str_min_length lo s = (if length s < lo then Invalid string_too_short else Valid s)"

definition str_max_length :: "nat \<Rightarrow> str \<Rightarrow> str checked" where
  "str_max_length hi s = (if hi < length s then Invalid string_too_long else Valid s)"

fun and_then :: "'a checked \<Rightarrow> ('a \<Rightarrow> 'b checked) \<Rightarrow> 'b checked" where
  "and_then (Valid x) f = f x"
| "and_then (Invalid k) f = Invalid k"
| "and_then (Raised e) f = Raised e"

fun bool_schema :: "pydantic \<Rightarrow> pyobj \<Rightarrow> bool checked" where
  "bool_schema L (PBool b) = Valid b"
| "bool_schema L v = (case bool_lax L v of Some b \<Rightarrow> Valid b | None \<Rightarrow> Invalid bool_type)"

fun datetime_schema :: "pydantic \<Rightarrow> pyobj \<Rightarrow> datetime checked" where
  "datetime_schema L (PDatetime d) = Valid d"
| "datetime_schema L v =
     (case datetime_lax L v of Some d \<Rightarrow> Valid d | None \<Rightarrow> Invalid datetime_type)"

fun UserRole_schema :: "pyobj \<Rightarrow> UserRole checked" where
  "UserRole_schema (PStr s) =
     (case find (\<lambda>r. UserRole_value r = s) UserRole_members of
        Some r \<Rightarrow> Valid r
      | None \<Rightarrow> Invalid enum_type)"
| "UserRole_schema v = Invalid enum_type"

fun EmailStr_schema :: "pydantic \<Rightarrow> pyobj \<Rightarrow> str checked" where
  "EmailStr_schema L (PStr s) =
     (case EmailStr L s of
        Some e \<Rightarrow> Valid e
      | None \<Rightarrow> Invalid (value_error Not_a_valid_email))"
| "EmailStr_schema L v = Invalid string_type"

text \<open>\<open>Optional[T]\<close>: \<open>None\<close> is accepted as it is, any other value goes to \<open>T\<close>.\<close>

fun optional :: "(pyobj \<Rightarrow> 'a checked) \<Rightarrow> pyobj \<Rightarrow> 'a option checked" where
  "optional inner PNone = Valid None"
| "optional inner v = and_then (inner v) (\<lambda>x. Valid (Some x))"

text \<open>
  A validator function of the source is called on the value; the \<open>ValueError\<close> it raises
  becomes the error of the field.
\<close>

fun raised :: "ValueError + 'a \<Rightarrow> 'a checked" where
  "raised (Inl e) = Invalid (value_error e)"
| "raised (Inr x) = Valid x"

text \<open>
  The field type \<open>PyObjectId\<close> gives pydantic its validators through
  \<open>__get_validators__\<close>, which yields \<open>PyObjectId.validate\<close>. pydantic 2 calls a validator
  obtained this way with two arguments, the value and the validation info, while
  \<open>validate\<close> takes the value alone: the call raises \<open>TypeError\<close> before the body of
  \<open>validate\<close> runs, whatever the value is, and \<open>TypeError\<close> is not a validation error.
\<close>

definition PyObjectId_schema :: "pyobj \<Rightarrow> str checked" where
  "PyObjectId_schema v = Raised TypeError"

text \<open>
  \<open>@field_validator("email", mode="before")\<close>: \<open>normalise_email\<close> receives the raw value
  of the mapping, before the type of the field is checked. On a value that is not a
  \<open>str\<close> the call \<open>v.strip()\<close> raises \<open>AttributeError\<close>, which is not a validation error.
\<close>

fun normalise_email_before :: "unicodedata \<Rightarrow> pyobj \<Rightarrow> pyobj checked" where
  "normalise_email_before D (PStr v) = Valid (PStr (normalise_email D v))"
| "normalise_email_before D v = Raised AttributeError"

text \<open>
  A required field (\<open>Field(...)\<close> or no default) and a field with a default. The
  validators of a field run only when the mapping holds the field.
\<close>

definition required :: "fields \<Rightarrow> string \<Rightarrow> (pyobj \<Rightarrow> 'a checked) \<Rightarrow> 'a checked" where
  "required m f check = (case m f of None \<Rightarrow> Invalid missing | Some v \<Rightarrow> check v)"

definition with_default :: "fields \<Rightarrow> string \<Rightarrow> 'a \<Rightarrow> (pyobj \<Rightarrow> 'a checked) \<Rightarrow> 'a checked" where
  "with_default m f d check = (case m f of None \<Rightarrow> Valid d | Some v \<Rightarrow> check v)"

text \<open>
  The outcome of one field, as the entries it adds to the composite error; the fields
  are validated in the order of their declaration, and an exception that is not a
  validation error ends the validation where it is raised.
\<close>

fun issue :: "string \<Rightarrow> 'a checked \<Rightarrow> exn + line_error list" where
  "issue f (Valid x) = Inr []"
| "issue f (Invalid k) = Inr [(f, k)]"
| "issue f (Raised e) = Inl e"

fun collect :: "(exn + line_error list) list \<Rightarrow> exn + line_error list" where
  "collect [] = Inr []"
| "collect (Inl e # rest) = Inl e"
| "collect (Inr es # rest) =
     (case collect rest of Inl e \<Rightarrow> Inl e | Inr es' \<Rightarrow> Inr (es @ es'))"

fun fail :: "exn + line_error list \<Rightarrow> failure" where
  "fail (Inl e) = Uncaught e"
| "fail (Inr es) = ValidationError es"

subsection \<open>Base model\<close>

record UserBase =
  full_name :: str
  email :: str
  role :: UserRole
  is_active :: bool
  avatar_url :: "str option"

definition UserBase_full_name :: "fields \<Rightarrow> str checked" where
  "UserBase_full_name m =
     required m ''full_name''
       (\<lambda>v. and_then (and_then (str_schema v) (str_min_length 2)) (str_max_length 100))"

definition UserBase_email :: "pydantic \<Rightarrow> unicodedata \<Rightarrow> fields \<Rightarrow> str checked" where
  "UserBase_email L D m =
     required m ''email'' (\<lambda>v. and_then (normalise_email_before D v) (EmailStr_schema L))"

definition UserBase_role :: "fields \<Rightarrow> UserRole checked" where
  "UserBase_role m = with_default m ''role'' INTERN UserRole_schema"

definition UserBase_is_active :: "pydantic \<Rightarrow> fields \<Rightarrow> bool checked" where
  "UserBase_is_active L m = with_default m ''is_active'' True (bool_schema L)"

definition UserBase_avatar_url :: "fields \<Rightarrow> str option checked" where
  "UserBase_avatar_url m = with_default m ''avatar_url'' None (optional str_schema)"

subsection \<open>Create schema\<close>

record UserCreate = UserBase +
  password :: str

definition UserCreate_password :: "unicodedata \<Rightarrow> fields \<Rightarrow> str checked" where
  "UserCreate_password D m =
     required m ''password''
       (\<lambda>v. and_then (and_then (str_schema v) (str_min_length 8))
                       (\<lambda>s. raised (password_strength D s)))"

text \<open>
  \<open>UserCreate(**m)\<close>. The class sets no \<open>extra\<close> in its configuration, so a key of the
  mapping that names no field of the class is not looked at.
\<close>

definition UserCreate_validate ::
    "pydantic \<Rightarrow> unicodedata \<Rightarrow> fields \<Rightarrow> failure + UserCreate" where
  "UserCreate_validate L D m =
     (let fn = UserBase_full_name m;
          em = UserBase_email L D m;
          ro = UserBase_role m;
          ia = UserBase_is_active L m;
          av = UserBase_avatar_url m;
          pw = UserCreate_password D m;
          problems = collect [issue ''full_name'' fn, issue ''email'' em, issue ''role'' ro,
                              issue ''is_active'' ia, issue ''avatar_url'' av,
                              issue ''password'' pw]
      in case (fn, em, ro, ia, av, pw) of
           (Valid a, Valid b, Valid c, Valid d, Valid e, Valid p) \<Rightarrow>
             Inr \<lparr>UserBase.full_name = a, email = b, role = c, is_active = d,
                  avatar_url = e, password = p\<rparr>
         | _ \<Rightarrow> Inl (fail problems))"

subsection \<open>Update schema\<close>

record UserUpdate =
  full_name :: "str option"
  email :: "str option"
  role :: "UserRole option"
  is_active :: "bool option"
  avatar_url :: "str option"

definition UserUpdate_full_name :: "fields \<Rightarrow> str option checked" where
  "UserUpdate_full_name m =
     with_default m ''full_name'' None
       (optional (\<lambda>v. and_then (and_then (str_schema v) (str_min_length 2))
                                (str_max_length 100)))"

definition UserUpdate_email :: "pydantic \<Rightarrow> fields \<Rightarrow> str option checked" where
  "UserUpdate_email L m = with_default m ''email'' None (optional (EmailStr_schema L))"

definition UserUpdate_role :: "fields \<Rightarrow> UserRole option checked" where
  "UserUpdate_role m = with_default m ''role'' None (optional UserRole_schema)"

definition UserUpdate_is_active :: "pydantic \<Rightarrow> fields \<Rightarrow> bool option checked" where
  "UserUpdate_is_active L m = with_default m ''is_active'' None (optional (bool_schema L))"

definition UserUpdate_avatar_url :: "fields \<Rightarrow> str option checked" where
  "UserUpdate_avatar_url m = with_default m ''avatar_url'' None (optional str_schema)"

definition UserUpdate_validate :: "pydantic \<Rightarrow> fields \<Rightarrow> failure + UserUpdate" where
  "UserUpdate_validate L m =
     (let fn = UserUpdate_full_name m;
          em = UserUpdate_email L m;
          ro = UserUpdate_role m;
          ia = UserUpdate_is_active L m;
          av = UserUpdate_avatar_url m;
          problems = collect [issue ''full_name'' fn, issue ''email'' em, issue ''role'' ro,
                              issue ''is_active'' ia, issue ''avatar_url'' av]
      in case (fn, em, ro, ia, av) of
           (Valid a, Valid b, Valid c, Valid d, Valid e) \<Rightarrow>
             Inr \<lparr>UserUpdate.full_name = a, email = b, role = c, is_active = d,
                  avatar_url = e\<rparr>
         | _ \<Rightarrow> Inl (fail problems))"

subsection \<open>DB schema\<close>

record UserInDB = UserBase +
  id' :: "str option"
  hashed_password :: str
  created_at :: datetime
  updated_at :: datetime

text \<open>
  The field \<open>id\<close> is written \<open>id'\<close>, since \<open>id\<close> is the identity function of HOL.

  \<open>id: Optional[PyObjectId] = Field(default=None, alias="_id")\<close> with
  \<open>populate_by_name\<close>: the value is taken from the key \<open>_id\<close> and, when the mapping has
  no such key, from the key \<open>id\<close>; with neither, the field is \<open>None\<close>. A value \<open>None\<close> is
  accepted as it is; any other value goes to the validator of \<open>PyObjectId\<close>.
\<close>

definition UserInDB_id :: "fields \<Rightarrow> str option checked" where
  "UserInDB_id m =
     (case m ''_id'' of
        Some v \<Rightarrow> optional PyObjectId_schema v
      | None \<Rightarrow> with_default m ''id'' None (optional PyObjectId_schema))"

definition UserInDB_hashed_password :: "fields \<Rightarrow> str checked" where
  "UserInDB_hashed_password m = required m ''hashed_password'' str_schema"

text \<open>
  \<open>default_factory=datetime.utcnow\<close>: the clock is read once for each of the two fields
  that the mapping leaves out. \<open>utcnow k\<close> is what the clock returns at its \<open>k\<close>-th reading
  during the construction.
\<close>

definition UserInDB_created_at :: "pydantic \<Rightarrow> (nat \<Rightarrow> datetime) \<Rightarrow> fields \<Rightarrow> datetime checked" where
  "UserInDB_created_at L utcnow m =
     with_default m ''created_at'' (utcnow 0) (datetime_schema L)"

definition UserInDB_updated_at :: "pydantic \<Rightarrow> (nat \<Rightarrow> datetime) \<Rightarrow> fields \<Rightarrow> datetime checked" where
  "UserInDB_updated_at L utcnow m =
     with_default m ''updated_at''
       (utcnow (if m ''created_at'' = None then 1 else 0)) (datetime_schema L)"

definition UserInDB_validate ::
    "pydantic \<Rightarrow> unicodedata \<Rightarrow> (nat \<Rightarrow> datetime) \<Rightarrow> fields \<Rightarrow> failure + UserInDB" where
  "UserInDB_validate L D utcnow m =
     (let fn = UserBase_full_name m;
          em = UserBase_email L D m;
          ro = UserBase_role m;
          ia = UserBase_is_active L m;
          av = UserBase_avatar_url m;
          oi = UserInDB_id m;
          hp = UserInDB_hashed_password m;
          ca = UserInDB_created_at L utcnow m;
          ua = UserInDB_updated_at L utcnow m;
          problems = collect [issue ''full_name'' fn, issue ''email'' em, issue ''role'' ro,
                              issue ''is_active'' ia, issue ''avatar_url'' av,
                              issue ''_id'' oi, issue ''hashed_password'' hp,
                              issue ''created_at'' ca, issue ''updated_at'' ua]
      in case (fn, em, ro, ia, av, oi, hp, ca, ua) of
           (Valid a, Valid b, Valid c, Valid d, Valid e, Valid i, Valid h, Valid t, Valid u) \<Rightarrow>
             Inr \<lparr>UserBase.full_name = a, email = b, role = c, is_active = d,
                  avatar_url = e, id' = i, hashed_password = h, created_at = t,
                  updated_at = u\<rparr>
         | _ \<Rightarrow> Inl (fail problems))"

subsection \<open>Response schema\<close>

record UserResponse =
  id' :: str
  full_name :: str
  email :: str
  role :: UserRole
  is_active :: bool
  avatar_url :: "str option"
  created_at :: datetime
  updated_at :: datetime

definition UserResponse_id :: "fields \<Rightarrow> str checked" where
  "UserResponse_id m = required m ''id'' str_schema"

definition UserResponse_full_name :: "fields \<Rightarrow> str checked" where
  "UserResponse_full_name m = required m ''full_name'' str_schema"

definition UserResponse_email :: "pydantic \<Rightarrow> fields \<Rightarrow> str checked" where
  "UserResponse_email L m = required m ''email'' (EmailStr_schema L)"

definition UserResponse_role :: "fields \<Rightarrow> UserRole checked" where
  "UserResponse_role m = required m ''role'' UserRole_schema"

definition UserResponse_is_active :: "pydantic \<Rightarrow> fields \<Rightarrow> bool checked" where
  "UserResponse_is_active L m = required m ''is_active'' (bool_schema L)"

definition UserResponse_avatar_url :: "fields \<Rightarrow> str option checked" where
  "UserResponse_avatar_url m = required m ''avatar_url'' (optional str_schema)"

definition UserResponse_created_at :: "pydantic \<Rightarrow> fields \<Rightarrow> datetime checked" where
  "UserResponse_created_at L m = required m ''created_at'' (datetime_schema L)"

definition UserResponse_updated_at :: "pydantic \<Rightarrow> fields \<Rightarrow> datetime checked" where
  "UserResponse_updated_at L m = required m ''updated_at'' (datetime_schema L)"

definition UserResponse_validate :: "pydantic \<Rightarrow> fields \<Rightarrow> failure + UserResponse" where
  "UserResponse_validate L m =
     (let oi = UserResponse_id m;
          fn = UserResponse_full_name m;
          em = UserResponse_email L m;
          ro = UserResponse_role m;
          ia = UserResponse_is_active L m;
          av = UserResponse_avatar_url m;
          ca = UserResponse_created_at L m;
          ua = UserResponse_updated_at L m;
          problems = collect [issue ''id'' oi, issue ''full_name'' fn, issue ''email'' em,
                              issue ''role'' ro, issue ''is_active'' ia,
                              issue ''avatar_url'' av, issue ''created_at'' ca,
                              issue ''updated_at'' ua]
      in case (oi, fn, em, ro, ia, av, ca, ua) of
           (Valid i, Valid a, Valid b, Valid c, Valid d, Valid e, Valid t, Valid u) \<Rightarrow>
             Inr \<lparr>UserResponse.id' = i, full_name = a, email = b, role = c, is_active = d,
                  avatar_url = e, created_at = t, updated_at = u\<rparr>
         | _ \<Rightarrow> Inl (fail problems))"

text \<open>
  \<open>from_attributes\<close>: a \<open>UserResponse\<close> is built from a \<open>UserInDB\<close> object by reading the
  attributes of the object under the field names of \<open>UserResponse\<close>. \<open>UserInDB_attributes\<close>
  gives the attributes of a \<open>UserInDB\<close> object; a member of \<open>UserRole\<close> is the string of
  its value.
\<close>

definition py_optional_str :: "str option \<Rightarrow> pyobj" where
  "py_optional_str x = (case x of None \<Rightarrow> PNone | Some s \<Rightarrow> PStr s)"

definition UserInDB_attributes :: "UserInDB \<Rightarrow> fields" where
  "UserInDB_attributes u =
     [''full_name'' \<mapsto> PStr (UserBase.full_name u),
      ''email'' \<mapsto> PStr (UserBase.email u),
      ''role'' \<mapsto> PStr (UserRole_value (UserBase.role u)),
      ''is_active'' \<mapsto> PBool (UserBase.is_active u),
      ''avatar_url'' \<mapsto> py_optional_str (UserBase.avatar_url u),
      ''id'' \<mapsto> py_optional_str (UserInDB.id' u),
      ''hashed_password'' \<mapsto> PStr (UserInDB.hashed_password u),
      ''created_at'' \<mapsto> PDatetime (UserInDB.created_at u),
      ''updated_at'' \<mapsto> PDatetime (UserInDB.updated_at u)]"

definition UserResponse_from_UserInDB :: "pydantic \<Rightarrow> UserInDB \<Rightarrow> failure + UserResponse" where
  "UserResponse_from_UserInDB L u = UserResponse_validate L (UserInDB_attributes u)"

text \<open>\<open>model_dump\<close> of a \<open>UserResponse\<close>: the mapping of its fields.\<close>

definition UserResponse_model_dump :: "UserResponse \<Rightarrow> fields" where
  "UserResponse_model_dump r =
     [''id'' \<mapsto> PStr (UserResponse.id' r),
      ''full_name'' \<mapsto> PStr (UserResponse.full_name r),
      ''email'' \<mapsto> PStr (UserResponse.email r),
      ''role'' \<mapsto> PStr (UserRole_value (UserResponse.role r)),
      ''is_active'' \<mapsto> PBool (UserResponse.is_active r),
      ''avatar_url'' \<mapsto> py_optional_str (UserResponse.avatar_url r),
      ''created_at'' \<mapsto> PDatetime (UserResponse.created_at r),
      ''updated_at'' \<mapsto> PDatetime (UserResponse.updated_at r)]"

subsection \<open>Instances of the parameters\<close>

text \<open>
  Instances used to evaluate the models on concrete mappings. In \<open>ucd\<close> the database
  knows, from 256 on, the whitespace characters and the letter U+2102, which is upper-case
  and has no lower-case form; every other character from 256 on is unclassified and its
  own lower-case mapping. In \<open>strict\<close> the email-format rule accepts a \<open>str\<close> with exactly
  one \<open>@\<close> between two non-empty parts free of whitespace, and returns it with surrounding
  whitespace removed; no value of another type converts to a \<open>bool\<close> or a \<open>datetime\<close>.
\<close>

definition ucd :: unicodedata where
  "ucd =
     \<lparr>isspace_wide = (\<lambda>c. c \<in> set [0x1680, 0x2000, 0x2001, 0x2002, 0x2003, 0x2004, 0x2005,
                                      0x2006, 0x2007, 0x2008, 0x2009, 0x200A, 0x2028, 0x2029,
                                      0x202F, 0x205F, 0x3000]),
      isdigit_wide = (\<lambda>c. False),
      isupper_wide = (\<lambda>c. c = 0x2102),
      lower_wide = (\<lambda>c. [c]),
      cased = (\<lambda>c. False),
      case_ignorable = (\<lambda>c. False)\<rparr>"

definition simple_email :: "str \<Rightarrow> str option" where
  "simple_email s =
     (let t = strip ucd s;
          local_part = takeWhile (\<lambda>c. c \<noteq> 0x40) t;
          domain = drop (Suc (length local_part)) t
      in if local_part \<noteq> [] \<and> domain \<noteq> [] \<and> length local_part < length t
            \<and> 0x40 \<notin> set domain \<and> \<not> list_ex (isspace ucd) t
         then Some t else None)"

definition strict :: pydantic where
  "strict = \<lparr>EmailStr = simple_email, bool_lax = (\<lambda>v. None), datetime_lax = (\<lambda>v. None)\<rparr>"

subsection \<open>Auxiliary notions of the statements\<close>

text \<open>
  The entries that the outcome of one field contributes; \<open>isinstance(v, str)\<close>; the field
  names of \<open>UserCreate\<close>.
\<close>

fun entries :: "exn + line_error list \<Rightarrow> line_error list" where
  "entries (Inr es) = es"
| "entries (Inl e) = []"

fun isinstance_str :: "pyobj \<Rightarrow> bool" where
  "isinstance_str (PStr s) = True"
| "isinstance_str v = False"

definition UserCreate_fields :: "string list" where
  "UserCreate_fields =
     [''full_name'', ''email'', ''role'', ''is_active'', ''avatar_url'', ''password'']"



text \<open>
  A document of the \<open>users\<close> collection, the \<open>UserInDB\<close> built from its fields other than
  \<open>_id\<close>, and a clock.
\<close>

definition jane_oid :: ObjectId where
  "jane_oid = ObjectId [0x5f, 0x43, 0xa1, 0xb2, 0xc3, 0xd4, 0xe5, 0xf6, 0xa7, 0xb8, 0xc9, 0xd0]"

definition jane_document :: fields where
  "jane_document =
     [''_id'' \<mapsto> PObjectId jane_oid, ''full_name'' \<mapsto> PStr (lit ''Jane Doe''),
      ''email'' \<mapsto> PStr (lit ''jane.doe@company.com''), ''role'' \<mapsto> PStr (lit ''admin''),
      ''hashed_password'' \<mapsto> PStr (lit ''$2b$12$KIX''),
      ''created_at'' \<mapsto> PDatetime 1700000000, ''updated_at'' \<mapsto> PDatetime 1700000600]"

definition jane_stored :: UserInDB where
  "jane_stored =
     \<lparr>UserBase.full_name = lit ''Jane Doe'', email = lit ''jane.doe@company.com'', role = ADMIN,
      is_active = True, avatar_url = None, UserInDB.id' = None,
      UserInDB.hashed_password = lit ''$2b$12$KIX'', UserInDB.created_at = 1700000000,
      UserInDB.updated_at = 1700000600\<rparr>"

definition clock :: "nat \<Rightarrow> datetime" where
  "clock k = 1700000000 + int k"

section \<open>Verification\<close>

subsection \<open>Facts about the built-in methods of str\<close>


lemma isdigit_latin1:
  "c < 256 \<Longrightarrow> isdigit D c \<longleftrightarrow> (48 \<le> c \<and> c \<le> 57) \<or> c = 178 \<or> c = 179 \<or> c = 185"
  by (simp add: isdigit_def latin1_digits_def lit_def) arith

lemma isupper_latin1:
  "c < 256 \<Longrightarrow> isupper D c \<longleftrightarrow> (65 \<le> c \<and> c \<le> 90) \<or> (192 \<le> c \<and> c \<le> 222 \<and> c \<noteq> 215)"
  by (simp add: isupper_def latin1_isupper_def)









lemma rstrip_twice: "rstrip D (rstrip D s) = rstrip D s"
  by (simp add: rstrip_def dropWhile_idem)






text \<open>The capital sigma: alone, and after one character that is not \<open>case_ignorable\<close>.\<close>

lemma lower_sigma_alone: "lower D [0x3A3] = [0x3C3]"
  by (simp add: lower_def final_sigma_def)

lemma lower_sigma_final:
  assumes "a \<noteq> 0x3A3" and "\<not> case_ignorable D a"
  shows "lower D [a, 0x3A3] = lower_char D a @ [if cased D a then 0x3C2 else 0x3C3]"
  using assms by (simp add: lower_def final_sigma_def)

lemma lower_sigma_inner:
  assumes "a \<noteq> 0x3A3" and "\<not> case_ignorable D a" and "b \<noteq> 0x3A3" and "\<not> case_ignorable D b"
  shows "lower D [a, 0x3A3, b] =
     lower_char D a @ [if cased D a \<and> \<not> cased D b then 0x3C2 else 0x3C3] @ lower_char D b"
  using assms by (simp add: lower_def final_sigma_def)













text \<open>The definitions that an evaluation unfolds.\<close>

lemmas str_defs =
  lit_def normalise_email_def strip_def lstrip_def rstrip_def lower_def lower_char_def
  isspace_def latin1_whitespace_def isdigit_def latin1_digits_def isupper_def
  latin1_isupper_def latin1_lower_def final_sigma_def

text \<open>
  Claim C7, as the code has it: the password strength check accepts a password exactly
  when it contains a character for which \<open>str.isdigit\<close> holds and a character for which
  \<open>str.isupper\<close> holds, and then returns it unchanged; for a password of at least 8
  characters this decides the \<open>password\<close> field of \<open>UserCreate\<close>. Among the characters below
  256, \<open>str.isdigit\<close> holds for \<open>0\<close> to \<open>9\<close> and for the superscripts U+00B2, U+00B3 and
  U+00B9, and \<open>str.isupper\<close> for \<open>A\<close> to \<open>Z\<close> and for U+00C0 to U+00DE without U+00D7.
  Lower-case letters are not required: \<open>abcdefgh\<close> is rejected, \<open>Abcdefg1\<close> and \<open>ABCDEFG1\<close>
  are accepted.
\<close>

theorem password_strength_policy:
  "(password_strength D v = Inr v \<longleftrightarrow>
      (\<exists>c \<in> set v. isdigit D c) \<and> (\<exists>c \<in> set v. isupper D c))
   \<and> (password_strength D v = Inr r \<longrightarrow> r = v)
   \<and> (8 \<le> length v \<longrightarrow>
        (UserCreate_password D [''password'' \<mapsto> PStr v] = Valid v \<longleftrightarrow>
           (\<exists>c \<in> set v. isdigit D c) \<and> (\<exists>c \<in> set v. isupper D c)))
   \<and> ((\<forall>c \<in> set v. c < 256) \<longrightarrow>
        (password_strength D v = Inr v \<longleftrightarrow>
           (\<exists>c \<in> set v. c \<in> set (lit ''0123456789'') \<or> c = 0xB2 \<or> c = 0xB3 \<or> c = 0xB9)
           \<and> (\<exists>c \<in> set v. c \<in> set (lit ''ABCDEFGHIJKLMNOPQRSTUVWXYZ'')
                  \<or> (0xC0 \<le> c \<and> c \<le> 0xDE \<and> c \<noteq> 0xD7))))
   \<and> password_strength D (lit ''abcdefgh'') = Inl Password_no_digit
   \<and> password_strength D (lit ''Abcdefg1'') = Inr (lit ''Abcdefg1'')
   \<and> password_strength D (lit ''ABCDEFG1'') = Inr (lit ''ABCDEFG1'')"
proof -
  have accepts: "password_strength D v = Inr v \<longleftrightarrow>
      (\<exists>c \<in> set v. isdigit D c) \<and> (\<exists>c \<in> set v. isupper D c)"
    unfolding password_strength_def list_ex_iff by simp
  have unchanged: "password_strength D v = Inr r \<longrightarrow> r = v"
    by (simp add: password_strength_def split: if_splits)
  have field: "8 \<le> length v \<longrightarrow>
        (UserCreate_password D [''password'' \<mapsto> PStr v] = Valid v \<longleftrightarrow>
           (\<exists>c \<in> set v. isdigit D c) \<and> (\<exists>c \<in> set v. isupper D c))"
  proof
    assume "8 \<le> length v"
    then have "UserCreate_password D [''password'' \<mapsto> PStr v] = raised (password_strength D v)"
      by (simp add: UserCreate_password_def required_def str_min_length_def)
    moreover have "raised (password_strength D v) = Valid v \<longleftrightarrow> password_strength D v = Inr v"
      using unchanged by (cases "password_strength D v") auto
    ultimately show "UserCreate_password D [''password'' \<mapsto> PStr v] = Valid v \<longleftrightarrow>
           (\<exists>c \<in> set v. isdigit D c) \<and> (\<exists>c \<in> set v. isupper D c)"
      using accepts by simp
  qed
  have digit: "isdigit D c \<longleftrightarrow> c \<in> set (lit ''0123456789'') \<or> c = 0xB2 \<or> c = 0xB3 \<or> c = 0xB9"
    if "c < 256" for c
    using that by (simp add: isdigit_def latin1_digits_def) blast
  have upper: "isupper D c \<longleftrightarrow> c \<in> set (lit ''ABCDEFGHIJKLMNOPQRSTUVWXYZ'')
                  \<or> (0xC0 \<le> c \<and> c \<le> 0xDE \<and> c \<noteq> 0xD7)"
    if "c < 256" for c
  proof -
    have "c \<in> set (lit ''ABCDEFGHIJKLMNOPQRSTUVWXYZ'') \<longleftrightarrow> 65 \<le> c \<and> c \<le> 90"
      by (simp add: lit_def) arith
    then show ?thesis
      using that by (simp add: isupper_latin1)
  qed
  have latin1: "(\<forall>c \<in> set v. c < 256) \<longrightarrow>
        (password_strength D v = Inr v \<longleftrightarrow>
           (\<exists>c \<in> set v. c \<in> set (lit ''0123456789'') \<or> c = 0xB2 \<or> c = 0xB3 \<or> c = 0xB9)
           \<and> (\<exists>c \<in> set v. c \<in> set (lit ''ABCDEFGHIJKLMNOPQRSTUVWXYZ'')
                  \<or> (0xC0 \<le> c \<and> c \<le> 0xDE \<and> c \<noteq> 0xD7)))"
    unfolding accepts using digit upper by blast
  have e1: "password_strength D (lit ''abcdefgh'') = Inl Password_no_digit"
    by (simp add: password_strength_def str_defs)
  have e2: "password_strength D (lit ''Abcdefg1'') = Inr (lit ''Abcdefg1'')"
    by (simp add: password_strength_def str_defs)
  have e3: "password_strength D (lit ''ABCDEFG1'') = Inr (lit ''ABCDEFG1'')"
    by (simp add: password_strength_def str_defs)
  from accepts unchanged field latin1 e1 e2 e3 show ?thesis by blast
qed

theorem password_strength_policy_witness:
  "8 \<le> length (lit ''Abcdefg'' @ [0xB3])
   \<and> list_all (\<lambda>c. c < 256) (lit ''Abcdefg'' @ [0xB3])
   \<and> 0xB3 \<in> set (lit ''Abcdefg'' @ [0xB3])
   \<and> of_char CHR ''A'' \<in> set (lit ''Abcdefg'' @ [0xB3])
   \<and> password_strength ucd (lit ''Abcdefg'' @ [0xB3]) = Inr (lit ''Abcdefg'' @ [0xB3])
   \<and> UserCreate_password ucd [''password'' \<mapsto> PStr (lit ''Abcdefg'' @ [0xB3])] =
       Valid (lit ''Abcdefg'' @ [0xB3])"
proof -
  have a: "\<forall>c \<in> set (lit ''Abcdefg'' @ [0xB3]). c < 256"
    by (simp add: lit_def)
  have b: "\<exists>c \<in> set (lit ''Abcdefg'' @ [0xB3]).
       c \<in> set (lit ''0123456789'') \<or> c = 0xB2 \<or> c = 0xB3 \<or> c = 0xB9"
    by (simp add: lit_def)
  have c: "\<exists>c \<in> set (lit ''Abcdefg'' @ [0xB3]). c \<in> set (lit ''ABCDEFGHIJKLMNOPQRSTUVWXYZ'')
                  \<or> (0xC0 \<le> c \<and> c \<le> 0xDE \<and> c \<noteq> 0xD7)"
    by (simp add: lit_def)
  have l: "8 \<le> length (lit ''Abcdefg'' @ [0xB3])"
    by (simp add: lit_def)
  from password_strength_policy [of ucd "lit ''Abcdefg'' @ [0xB3]" "lit ''Abcdefg'' @ [0xB3]"] a b c l
  have "password_strength ucd (lit ''Abcdefg'' @ [0xB3]) = Inr (lit ''Abcdefg'' @ [0xB3])"
    and "UserCreate_password ucd [''password'' \<mapsto> PStr (lit ''Abcdefg'' @ [0xB3])] =
       Valid (lit ''Abcdefg'' @ [0xB3])"
    by blast+
  then show ?thesis
    using l by (simp add: lit_def)
qed

text \<open>
  Against claim C7 as stated: the password \<open>Abcdefg\<close> followed by the superscript two
  (U+00B2) has 8 characters and no decimal digit, and it is accepted.
\<close>

theorem password_strength_accepts_superscript:
  "8 \<le> length (lit ''Abcdefg'' @ [0xB2])
   \<and> password_strength ucd (lit ''Abcdefg'' @ [0xB2]) = Inr (lit ''Abcdefg'' @ [0xB2])
   \<and> UserCreate_password ucd [''password'' \<mapsto> PStr (lit ''Abcdefg'' @ [0xB2])] =
       Valid (lit ''Abcdefg'' @ [0xB2])
   \<and> set (lit ''Abcdefg'' @ [0xB2]) \<inter> set (lit ''0123456789'') = {}"
  by (simp add: password_strength_def UserCreate_password_def required_def str_min_length_def
      str_defs)






subsection \<open>Facts about the identifier codec\<close>

lemma length_hexlify: "length (hexlify b) = 2"
  by (simp add: hexlify_def)

lemma length_hexdigits: "length hexdigits = 22"
  by (simp add: hexdigits_def lit_def)

lemma nibble_hexdigit: "n < 16 \<Longrightarrow> hexdigits ! n \<in> set hexdigits"
  by (rule nth_mem) (simp add: length_hexdigits)

lemma unat_byte_div: "unat (b :: 8 word) div 16 < 16"
proof -
  have "unat b < 2 ^ 8" using unsigned_less [of b] by simp
  then show ?thesis by simp
qed

lemma set_hexlify: "c \<in> set (hexlify b) \<Longrightarrow> c \<in> set hexdigits"
  using nibble_hexdigit [OF unat_byte_div [of b]] nibble_hexdigit [of "unat b mod 16"]
  by (auto simp: hexlify_def)

lemma length_concat_hexlify: "length (concat (map hexlify bs)) = 2 * length bs"
  by (induction bs) (simp_all add: length_hexlify)

lemma set_concat_hexlify: "c \<in> set (concat (map hexlify bs)) \<Longrightarrow> c \<in> set hexdigits"
  using set_hexlify by auto

lemma is_valid_str_ObjectId: "wf_ObjectId oid \<Longrightarrow> ObjectId_is_valid (str_ObjectId oid)"
  by (simp add: wf_ObjectId_def ObjectId_is_valid_def str_ObjectId_def length_concat_hexlify
      list_all_iff set_concat_hexlify)

lemma distinct_hexdigits: "distinct hexdigits"
  by (simp add: hexdigits_def lit_def)

lemma hexdigit_inj: "i < 16 \<Longrightarrow> j < 16 \<Longrightarrow> hexdigits ! i = hexdigits ! j \<Longrightarrow> i = j"
proof -
  assume "i < 16" "j < 16" "hexdigits ! i = hexdigits ! j"
  then show "i = j"
    using distinct_hexdigits by (simp add: nth_eq_iff_index_eq length_hexdigits)
qed

lemma hexlify_inj: "hexlify a = hexlify b \<Longrightarrow> a = b"
proof -
  assume h: "hexlify a = hexlify b"
  from h have hi: "hexdigits ! (unat a div 16) = hexdigits ! (unat b div 16)"
    and lo: "hexdigits ! (unat a mod 16) = hexdigits ! (unat b mod 16)"
    unfolding hexlify_def by (simp_all only: list.inject)
  have m: "unat c mod 16 < 16" for c :: "8 word"
    by (rule mod_less_divisor) simp
  have "unat a div 16 = unat b div 16"
    using unat_byte_div [of a] unat_byte_div [of b] hi by (rule hexdigit_inj)
  moreover have "unat a mod 16 = unat b mod 16"
    using m [of a] m [of b] lo by (rule hexdigit_inj)
  ultimately have "unat a = unat b"
    by (metis div_mult_mod_eq)
  then show "a = b" by (simp only: word_unat_eq_iff)
qed

lemma concat_hexlify_inj:
  "concat (map hexlify xs) = concat (map hexlify ys) \<Longrightarrow> length xs = length ys \<Longrightarrow> xs = ys"
proof (induction xs arbitrary: ys)
  case Nil
  then show ?case by simp
next
  case (Cons x xs)
  then obtain y ys' where ys: "ys = y # ys'" by (cases ys) auto
  from Cons.prems(1) ys have "hexlify x @ concat (map hexlify xs) = hexlify y @ concat (map hexlify ys')"
    by simp
  then have "hexlify x = hexlify y \<and> concat (map hexlify xs) = concat (map hexlify ys')"
    by (simp add: length_hexlify)
  then show ?case
    using Cons.IH [of ys'] Cons.prems(2) ys hexlify_inj by auto
qed

lemma str_jane_oid: "str_ObjectId jane_oid = (lit ''5f43a1b2c3d4e5f6a7b8c9d0'')"
  by (simp add: str_ObjectId_def jane_oid_def hexlify_def hexdigits_def lit_def)

text \<open>
  Claim C5, as the code has it: \<open>PyObjectId.validate\<close> fails on a string exactly when the
  string is not a valid identifier (its length is not 24, or one of its characters is not
  a hexadecimal digit), with the \<open>ValueError\<close> \<open>Invalid ObjectId\<close>; on a valid identifier
  it succeeds and returns the string itself, unchanged.
\<close>

theorem validate_str_exact:
  "(length s \<noteq> 24 \<or> (\<exists>c \<in> set s. c \<notin> set (lit ''0123456789abcdefABCDEF'')) \<longrightarrow>
      validate (PStr s) = Inl (Invalid_ObjectId (PStr s)))
   \<and> (length s = 24 \<and> (\<forall>c \<in> set s. c \<in> set (lit ''0123456789abcdefABCDEF'')) \<longrightarrow>
      validate (PStr s) = Inr s)"
  unfolding hexdigits_def [symmetric]
  by (auto simp: ObjectId_is_valid_def list_all_iff)

theorem validate_str_exact_witness:
  "length (lit ''5f43'') \<noteq> 24
   \<and> validate (PStr (lit ''5f43'')) = Inl (Invalid_ObjectId (PStr (lit ''5f43'')))
   \<and> of_char CHR ''g'' \<in> set (lit ''5f43a1b2c3d4e5f6a7b8c9dg'')
   \<and> of_char CHR ''g'' \<notin> set (lit ''0123456789abcdefABCDEF'')
   \<and> validate (PStr (lit ''5f43a1b2c3d4e5f6a7b8c9dg'')) =
       Inl (Invalid_ObjectId (PStr (lit ''5f43a1b2c3d4e5f6a7b8c9dg'')))
   \<and> length (lit ''5F43A1B2C3D4E5F6A7B8C9D0'') = 24
   \<and> list_all (\<lambda>c. c \<in> set (lit ''0123456789abcdefABCDEF'')) (lit ''5F43A1B2C3D4E5F6A7B8C9D0'')
   \<and> validate (PStr (lit ''5F43A1B2C3D4E5F6A7B8C9D0'')) = Inr (lit ''5F43A1B2C3D4E5F6A7B8C9D0'')"
proof -
  have a: "length (lit ''5f43'') \<noteq> 24"
    by (simp add: lit_def)
  have b: "of_char CHR ''g'' \<in> set (lit ''5f43a1b2c3d4e5f6a7b8c9dg'')"
    "of_char CHR ''g'' \<notin> set (lit ''0123456789abcdefABCDEF'')"
    by (simp_all add: lit_def)
  have c: "length (lit ''5F43A1B2C3D4E5F6A7B8C9D0'') = 24"
    by (simp add: lit_def)
  have d: "list_all (\<lambda>c. c \<in> set (lit ''0123456789abcdefABCDEF'')) (lit ''5F43A1B2C3D4E5F6A7B8C9D0'')"
    by (simp add: lit_def)
  from validate_str_exact [of "lit ''5f43''"] a
  have 1: "validate (PStr (lit ''5f43'')) = Inl (Invalid_ObjectId (PStr (lit ''5f43'')))"
    by blast
  from validate_str_exact [of "lit ''5f43a1b2c3d4e5f6a7b8c9dg''"] b
  have 2: "validate (PStr (lit ''5f43a1b2c3d4e5f6a7b8c9dg'')) =
       Inl (Invalid_ObjectId (PStr (lit ''5f43a1b2c3d4e5f6a7b8c9dg'')))"
    by blast
  from validate_str_exact [of "lit ''5F43A1B2C3D4E5F6A7B8C9D0''"] c d
  have 3: "validate (PStr (lit ''5F43A1B2C3D4E5F6A7B8C9D0'')) = Inr (lit ''5F43A1B2C3D4E5F6A7B8C9D0'')"
    unfolding list_all_iff by blast
  from a b c d 1 2 3 show ?thesis
    by (simp only: simp_thms)
qed

text \<open>
  Against claim C5 as stated: on a valid identifier \<open>validate\<close> returns the string it was
  given, a \<open>str\<close>, and not the decoded \<open>ObjectId\<close> whose wire form the string is.
\<close>

theorem validate_str_returns_str:
  "validate (PStr (lit ''5f43a1b2c3d4e5f6a7b8c9d0'')) = Inr (lit ''5f43a1b2c3d4e5f6a7b8c9d0'')
   \<and> str_ObjectId jane_oid = (lit ''5f43a1b2c3d4e5f6a7b8c9d0'')
   \<and> PStr (lit ''5f43a1b2c3d4e5f6a7b8c9d0'') \<noteq> PObjectId jane_oid"
  by (simp add: str_jane_oid ObjectId_is_valid_def hexdigits_def lit_def)

text \<open>
  Claim C6, as the code has it: for an \<open>ObjectId\<close> \<open>x\<close> (of 12 bytes), \<open>validate\<close> succeeds
  and returns \<open>str(x)\<close>, a valid identifier; validating that string again returns the
  same string, so the round trip ends in the wire form \<open>str(x)\<close>. The wire form determines
  \<open>x\<close>: two \<open>ObjectId\<close>s with the same wire form are equal.
\<close>

theorem codec_round_trip:
  "wf_ObjectId x \<longrightarrow>
     validate (PObjectId x) = Inr (str_ObjectId x)
     \<and> ObjectId_is_valid (str_ObjectId x)
     \<and> validate (PStr (str_ObjectId x)) = Inr (str_ObjectId x)
     \<and> (\<forall>y. wf_ObjectId y \<and> validate (PObjectId y) = validate (PObjectId x) \<longrightarrow> y = x)"
proof
  assume wf: "wf_ObjectId x"
  have inj: "y = x" if "wf_ObjectId y" "validate (PObjectId y) = validate (PObjectId x)" for y
  proof -
    from that wf have "concat (map hexlify (binary y)) = concat (map hexlify (binary x))"
      and "length (binary y) = length (binary x)"
      by (simp_all add: str_ObjectId_def wf_ObjectId_def)
    then have "binary y = binary x" by (rule concat_hexlify_inj)
    then show ?thesis by (simp add: ObjectId.expand)
  qed
  show "validate (PObjectId x) = Inr (str_ObjectId x)
     \<and> ObjectId_is_valid (str_ObjectId x)
     \<and> validate (PStr (str_ObjectId x)) = Inr (str_ObjectId x)
     \<and> (\<forall>y. wf_ObjectId y \<and> validate (PObjectId y) = validate (PObjectId x) \<longrightarrow> y = x)"
    using is_valid_str_ObjectId [OF wf] inj by auto
qed

theorem codec_round_trip_witness:
  "wf_ObjectId (ObjectId [0x65, 0x4a, 0x1b, 0x2c, 0x3d, 0x4e, 0x5f, 0x60, 0x71, 0x82, 0x93, 0xa4])
   \<and> validate (PObjectId (ObjectId [0x65, 0x4a, 0x1b, 0x2c, 0x3d, 0x4e, 0x5f, 0x60, 0x71, 0x82, 0x93, 0xa4])) =
       Inr (lit ''654a1b2c3d4e5f60718293a4'')
   \<and> validate (PStr (lit ''654a1b2c3d4e5f60718293a4'')) = Inr (lit ''654a1b2c3d4e5f60718293a4'')"
proof -
  have s: "str_ObjectId (ObjectId [0x65, 0x4a, 0x1b, 0x2c, 0x3d, 0x4e, 0x5f, 0x60, 0x71, 0x82, 0x93, 0xa4]) =
      (lit ''654a1b2c3d4e5f60718293a4'')"
    by (simp add: str_ObjectId_def hexlify_def hexdigits_def lit_def)
  have w: "wf_ObjectId (ObjectId [0x65, 0x4a, 0x1b, 0x2c, 0x3d, 0x4e, 0x5f, 0x60, 0x71, 0x82, 0x93, 0xa4])"
    by (simp add: wf_ObjectId_def)
  show ?thesis
    using codec_round_trip [of "ObjectId [0x65, 0x4a, 0x1b, 0x2c, 0x3d, 0x4e, 0x5f, 0x60, 0x71, 0x82, 0x93, 0xa4]"] w
    unfolding s by (simp add: ObjectId_is_valid_def hexdigits_def lit_def)
qed

text \<open>
  Against claim C6 as stated: the round trip of an \<open>ObjectId\<close> ends in a \<open>str\<close>, which is
  not the \<open>ObjectId\<close> it started from.
\<close>

theorem round_trip_yields_str:
  "validate (PObjectId (ObjectId [0, 0, 0, 0, 0, 0, 0, 0, 0, 0, 0, 1])) = Inr (lit ''000000000000000000000001'')
   \<and> validate (PStr (lit ''000000000000000000000001'')) = Inr (lit ''000000000000000000000001'')
   \<and> PStr (lit ''000000000000000000000001'') \<noteq> PObjectId (ObjectId [0, 0, 0, 0, 0, 0, 0, 0, 0, 0, 0, 1])"
  by (simp add: str_ObjectId_def hexlify_def ObjectId_is_valid_def hexdigits_def lit_def)

subsection \<open>Evaluation of the models\<close>

lemmas field_defs =
  required_def with_default_def str_min_length_def str_max_length_def
  UserBase_full_name_def UserBase_email_def UserBase_role_def UserBase_is_active_def
  UserBase_avatar_url_def UserCreate_password_def password_strength_def
  UserUpdate_full_name_def UserUpdate_email_def UserUpdate_role_def UserUpdate_is_active_def
  UserUpdate_avatar_url_def UserInDB_id_def UserInDB_hashed_password_def
  UserInDB_created_at_def UserInDB_updated_at_def PyObjectId_schema_def
  UserResponse_id_def UserResponse_full_name_def UserResponse_email_def UserResponse_role_def
  UserResponse_is_active_def UserResponse_avatar_url_def UserResponse_created_at_def
  UserResponse_updated_at_def UserRole_members_def strict_def simple_email_def ucd_def

subsection \<open>Facts about the field types\<close>

lemma and_then_Raised_iff:
  "and_then c f = Raised e \<longleftrightarrow> c = Raised e \<or> (\<exists>x. c = Valid x \<and> f x = Raised e)"
  by (cases c) auto

lemma and_then_Valid_iff:
  "and_then c f = Valid y \<longleftrightarrow> (\<exists>x. c = Valid x \<and> f x = Valid y)"
  by (cases c) auto

lemma str_schema_not_Raised: "str_schema v \<noteq> Raised e"
  by (cases v) simp_all

lemma str_schema_Valid_iff: "str_schema v = Valid s \<longleftrightarrow> v = PStr s"
  by (cases v) simp_all

lemma str_min_length_not_Raised: "str_min_length n s \<noteq> Raised e"
  by (simp add: str_min_length_def)

lemma str_max_length_not_Raised: "str_max_length n s \<noteq> Raised e"
  by (simp add: str_max_length_def)

lemma bool_schema_not_Raised: "bool_schema L v \<noteq> Raised e"
  by (cases v) (simp_all split: option.splits)

lemma datetime_schema_not_Raised: "datetime_schema L v \<noteq> Raised e"
  by (cases v) (simp_all split: option.splits)

lemma UserRole_schema_not_Raised: "UserRole_schema v \<noteq> Raised e"
  by (cases v) (simp_all split: option.splits)

lemma EmailStr_schema_not_Raised: "EmailStr_schema L v \<noteq> Raised e"
  by (cases v) (simp_all split: option.splits)

lemma raised_not_Raised: "raised r \<noteq> Raised e"
  by (cases r) simp_all

lemma optional_not_Raised: "(\<And>w. inner w \<noteq> Raised e) \<Longrightarrow> optional inner v \<noteq> Raised e"
  by (cases v) (simp_all add: and_then_Raised_iff)

lemma required_not_Raised: "(\<And>w. check w \<noteq> Raised e) \<Longrightarrow> required m f check \<noteq> Raised e"
  by (simp add: required_def split: option.splits)

lemma with_default_not_Raised:
  "(\<And>w. check w \<noteq> Raised e) \<Longrightarrow> with_default m f d check \<noteq> Raised e"
  by (simp add: with_default_def split: option.splits)

lemmas schema_not_Raised =
  str_schema_not_Raised str_min_length_not_Raised str_max_length_not_Raised
  bool_schema_not_Raised datetime_schema_not_Raised UserRole_schema_not_Raised
  EmailStr_schema_not_Raised raised_not_Raised

lemma UserBase_full_name_not_Raised: "UserBase_full_name m \<noteq> Raised e"
  unfolding UserBase_full_name_def
  by (rule required_not_Raised) (simp add: and_then_Raised_iff schema_not_Raised)

lemma UserBase_role_not_Raised: "UserBase_role m \<noteq> Raised e"
  unfolding UserBase_role_def by (rule with_default_not_Raised) (rule schema_not_Raised)

lemma UserBase_is_active_not_Raised: "UserBase_is_active L m \<noteq> Raised e"
  unfolding UserBase_is_active_def by (rule with_default_not_Raised) (rule schema_not_Raised)

lemma UserBase_avatar_url_not_Raised: "UserBase_avatar_url m \<noteq> Raised e"
  unfolding UserBase_avatar_url_def
  by (rule with_default_not_Raised) (rule optional_not_Raised, rule schema_not_Raised)

lemma UserCreate_password_not_Raised: "UserCreate_password D m \<noteq> Raised e"
  unfolding UserCreate_password_def
  by (rule required_not_Raised) (simp add: and_then_Raised_iff schema_not_Raised)

lemma normalise_email_before_Raised_iff:
  "normalise_email_before D v = Raised e \<longleftrightarrow> e = AttributeError \<and> \<not> isinstance_str v"
  by (cases v) auto

lemma UserBase_email_Raised_iff:
  "UserBase_email L D m = Raised e \<longleftrightarrow>
     e = AttributeError \<and> (\<exists>v. m ''email'' = Some v \<and> \<not> isinstance_str v)"
  by (auto simp: UserBase_email_def required_def and_then_Raised_iff
      normalise_email_before_Raised_iff schema_not_Raised split: option.splits)

subsection \<open>Facts about the composite error\<close>

lemma issue_Inr_if_not_Raised: "(\<And>e. c \<noteq> Raised e) \<Longrightarrow> \<exists>es. issue f c = Inr es"
  by (cases c) auto

lemma collect_Inr:
  "\<forall>r \<in> set rs. \<exists>es. r = Inr es \<Longrightarrow> collect rs = Inr (concat (map entries rs))"
proof (induction rs)
  case Nil
  then show ?case by simp
next
  case (Cons r rs)
  then obtain es where "r = Inr es" by auto
  with Cons show ?case by simp
qed

lemma collect_Inr_eq: "collect rs = Inr es \<Longrightarrow> es = concat (map entries rs)"
proof (induction rs arbitrary: es)
  case Nil
  then show ?case by simp
next
  case (Cons r rs)
  then show ?case by (cases r) (auto split: sum.splits)
qed

lemma in_issue: "(g, k) \<in> set (entries (issue f c)) \<longleftrightarrow> g = f \<and> c = Invalid k"
  by (cases c) auto

lemma fail_ValidationError_iff:
  "fail p = ValidationError es \<longleftrightarrow> p = Inr es"
  "ValidationError es = fail p \<longleftrightarrow> p = Inr es"
  by (cases p; auto)+

subsection \<open>Create\<close>

lemma UserCreate_validate_failure:
  assumes "UserBase_full_name m = Invalid k \<or> UserBase_email L D m = Invalid k
           \<or> UserBase_email L D m = Raised AttributeError
           \<or> UserBase_role m = Invalid k \<or> UserBase_is_active L m = Invalid k
           \<or> UserBase_avatar_url m = Invalid k \<or> UserCreate_password D m = Invalid k"
  shows "UserCreate_validate L D m =
      Inl (fail (collect [issue ''full_name'' (UserBase_full_name m),
              issue ''email'' (UserBase_email L D m), issue ''role'' (UserBase_role m),
              issue ''is_active'' (UserBase_is_active L m),
              issue ''avatar_url'' (UserBase_avatar_url m),
              issue ''password'' (UserCreate_password D m)]))"
  using assms by (auto simp: UserCreate_validate_def Let_def split: checked.splits)

lemma UserCreate_problems:
  assumes "\<forall>v. m ''email'' = Some v \<longrightarrow> isinstance_str v"
  shows "collect [issue ''full_name'' (UserBase_full_name m),
              issue ''email'' (UserBase_email L D m), issue ''role'' (UserBase_role m),
              issue ''is_active'' (UserBase_is_active L m),
              issue ''avatar_url'' (UserBase_avatar_url m),
              issue ''password'' (UserCreate_password D m)] =
         Inr (entries (issue ''full_name'' (UserBase_full_name m))
              @ entries (issue ''email'' (UserBase_email L D m))
              @ entries (issue ''role'' (UserBase_role m))
              @ entries (issue ''is_active'' (UserBase_is_active L m))
              @ entries (issue ''avatar_url'' (UserBase_avatar_url m))
              @ entries (issue ''password'' (UserCreate_password D m)))"
proof -
  have "UserBase_email L D m \<noteq> Raised e" for e
    using assms by (simp add: UserBase_email_Raised_iff)
  then have "\<exists>es. issue f (UserBase_email L D m) = Inr es" for f
    by (cases "UserBase_email L D m") auto
  moreover have "\<exists>es. issue f (UserBase_full_name m) = Inr es" for f
    using UserBase_full_name_not_Raised [of m] by (cases "UserBase_full_name m") auto
  moreover have "\<exists>es. issue f (UserBase_role m) = Inr es" for f
    using UserBase_role_not_Raised [of m] by (cases "UserBase_role m") auto
  moreover have "\<exists>es. issue f (UserBase_is_active L m) = Inr es" for f
    using UserBase_is_active_not_Raised [of L m] by (cases "UserBase_is_active L m") auto
  moreover have "\<exists>es. issue f (UserBase_avatar_url m) = Inr es" for f
    using UserBase_avatar_url_not_Raised [of m] by (cases "UserBase_avatar_url m") auto
  moreover have "\<exists>es. issue f (UserCreate_password D m) = Inr es" for f
    using UserCreate_password_not_Raised [of D m] by (cases "UserCreate_password D m") auto
  ultimately show ?thesis
    by (subst collect_Inr) simp_all
qed

lemma UserCreate_ignores_key:
  assumes "k \<notin> set UserCreate_fields"
  shows "UserCreate_validate L D (m(k \<mapsto> v)) = UserCreate_validate L D m"
proof -
  from assms have "(m(k \<mapsto> v)) f = m f" if "f \<in> set UserCreate_fields" for f
    using that by auto
  then have "UserBase_full_name (m(k \<mapsto> v)) = UserBase_full_name m"
    and "UserBase_email L D (m(k \<mapsto> v)) = UserBase_email L D m"
    and "UserBase_role (m(k \<mapsto> v)) = UserBase_role m"
    and "UserBase_is_active L (m(k \<mapsto> v)) = UserBase_is_active L m"
    and "UserBase_avatar_url (m(k \<mapsto> v)) = UserBase_avatar_url m"
    and "UserCreate_password D (m(k \<mapsto> v)) = UserCreate_password D m"
    by (simp_all add: UserCreate_fields_def UserBase_full_name_def UserBase_email_def
        UserBase_role_def UserBase_is_active_def UserBase_avatar_url_def
        UserCreate_password_def required_def with_default_def)
  then show ?thesis
    by (simp add: UserCreate_validate_def)
qed

text \<open>
  Claim C1, as the code has it: a mapping without the key \<open>password\<close> (whose \<open>email\<close>, when
  present, is a string) fails with a composite error that names \<open>password\<close> as \<open>missing\<close>.
  A key that names no field of \<open>UserCreate\<close>, such as \<open>identifier\<close>, is ignored: the
  construction gives the same result with the key as without it.
\<close>

theorem UserCreate_missing_password_extra_key:
  "((\<forall>x. m ''email'' = Some x \<longrightarrow> isinstance_str x) \<and> m ''password'' = None \<longrightarrow>
      (\<exists>es. UserCreate_validate L D m = Inl (ValidationError es) \<and> (''password'', missing) \<in> set es))
   \<and> (k \<notin> set UserCreate_fields \<longrightarrow> UserCreate_validate L D (m(k \<mapsto> v)) = UserCreate_validate L D m)
   \<and> UserCreate_validate L D (m(''identifier'' \<mapsto> v)) = UserCreate_validate L D m"
proof -
  have a: "\<exists>es. UserCreate_validate L D m = Inl (ValidationError es) \<and> (''password'', missing) \<in> set es"
    if e: "\<forall>x. m ''email'' = Some x \<longrightarrow> isinstance_str x" and p: "m ''password'' = None"
  proof -
    from p have pw: "UserCreate_password D m = Invalid missing"
      by (simp add: UserCreate_password_def required_def)
    then show ?thesis
      using UserCreate_validate_failure [of m missing L D] UserCreate_problems [of m L D] e
      by simp
  qed
  have b: "UserCreate_validate L D (m(''identifier'' \<mapsto> v)) = UserCreate_validate L D m"
    by (rule UserCreate_ignores_key) (simp add: UserCreate_fields_def)
  from a b UserCreate_ignores_key show ?thesis by blast
qed

theorem UserCreate_missing_password_extra_key_witness:
  "[''full_name'' \<mapsto> PStr (lit ''Jane Doe''), ''email'' \<mapsto> PStr (lit ''jane.doe@company.com'')] ''email'' =
     Some (PStr (lit ''jane.doe@company.com''))
   \<and> isinstance_str (PStr (lit ''jane.doe@company.com''))
   \<and> [''full_name'' \<mapsto> PStr (lit ''Jane Doe''), ''email'' \<mapsto> PStr (lit ''jane.doe@company.com'')] ''password'' = None
   \<and> ''identifier'' \<notin> set UserCreate_fields
   \<and> UserCreate_validate strict ucd
        [''full_name'' \<mapsto> PStr (lit ''Jane Doe''), ''email'' \<mapsto> PStr (lit ''jane.doe@company.com''),
         ''identifier'' \<mapsto> PStr (lit ''5f43a1b2c3d4e5f6a7b8c9d0'')] =
       Inl (ValidationError [(''password'', missing)])"
proof -
  have v: "UserCreate_validate strict ucd
        [''full_name'' \<mapsto> PStr (lit ''Jane Doe''), ''email'' \<mapsto> PStr (lit ''jane.doe@company.com'')] =
       Inl (ValidationError [(''password'', missing)])"
    by (simp add: UserCreate_validate_def field_defs str_defs)
  show ?thesis
    using UserCreate_missing_password_extra_key
      [of "[''full_name'' \<mapsto> PStr (lit ''Jane Doe''), ''email'' \<mapsto> PStr (lit ''jane.doe@company.com'')]"
          strict ucd "''identifier''" "PStr (lit ''5f43a1b2c3d4e5f6a7b8c9d0'')"]
    by (simp add: v UserCreate_fields_def)
qed

text \<open>
  Against claim C1 as stated: a mapping that holds an \<open>identifier\<close> key beside valid
  fields is accepted, and the key is dropped.
\<close>

theorem UserCreate_accepts_identifier_key:
  "UserCreate_validate strict ucd
     [''full_name'' \<mapsto> PStr (lit ''Jane Doe''), ''email'' \<mapsto> PStr (lit ''jane.doe@company.com''),
      ''password'' \<mapsto> PStr (lit ''Abcdefg1''),
      ''identifier'' \<mapsto> PStr (lit ''5f43a1b2c3d4e5f6a7b8c9d0'')] =
   Inr \<lparr>UserBase.full_name = lit ''Jane Doe'', email = lit ''jane.doe@company.com'', role = INTERN,
        is_active = True, avatar_url = None, password = lit ''Abcdefg1''\<rparr>"
  by (simp add: UserCreate_validate_def field_defs str_defs)

text \<open>
  Claim C10, at the input where the code leaves it: with a \<open>full_name\<close> that is too short,
  an \<open>email\<close> that is not a string and a password that is too short, the construction ends
  with the \<open>AttributeError\<close> of \<open>normalise_email\<close>; no composite error is built and no
  field is reported.
\<close>

theorem UserCreate_non_str_email_raises:
  "UserCreate_validate L D
     [''full_name'' \<mapsto> PStr (lit ''J''), ''email'' \<mapsto> PInt 123, ''password'' \<mapsto> PStr (lit ''weak'')] =
   Inl (Uncaught AttributeError)"
  by (simp add: UserCreate_validate_def field_defs str_defs)

text \<open>
  When the \<open>email\<close> of the mapping is absent or a string, the construction either succeeds
  or fails with the composite error, which then has an entry for every field that is
  invalid.
\<close>

lemma UserCreate_reports_every_invalid_field:
  assumes "\<forall>x. m ''email'' = Some x \<longrightarrow> isinstance_str x"
  shows "(\<exists>u. UserCreate_validate L D m = Inr u)
    \<or> (\<exists>es. UserCreate_validate L D m = Inl (ValidationError es)
          \<and> (\<forall>k. UserBase_full_name m = Invalid k \<longrightarrow> (''full_name'', k) \<in> set es)
          \<and> (\<forall>k. UserBase_email L D m = Invalid k \<longrightarrow> (''email'', k) \<in> set es)
          \<and> (\<forall>k. UserBase_role m = Invalid k \<longrightarrow> (''role'', k) \<in> set es)
          \<and> (\<forall>k. UserBase_is_active L m = Invalid k \<longrightarrow> (''is_active'', k) \<in> set es)
          \<and> (\<forall>k. UserBase_avatar_url m = Invalid k \<longrightarrow> (''avatar_url'', k) \<in> set es)
          \<and> (\<forall>k. UserCreate_password D m = Invalid k \<longrightarrow> (''password'', k) \<in> set es))"
proof (cases "\<exists>u. UserCreate_validate L D m = Inr u")
  case True
  then show ?thesis by simp
next
  case False
  have nr: "UserBase_email L D m \<noteq> Raised e" for e
    using assms by (simp add: UserBase_email_Raised_iff)
  have "UserCreate_validate L D m =
      Inl (fail (collect [issue ''full_name'' (UserBase_full_name m),
              issue ''email'' (UserBase_email L D m), issue ''role'' (UserBase_role m),
              issue ''is_active'' (UserBase_is_active L m),
              issue ''avatar_url'' (UserBase_avatar_url m),
              issue ''password'' (UserCreate_password D m)]))"
    using False by (auto simp: UserCreate_validate_def Let_def split: checked.splits)
  then show ?thesis
    using UserCreate_problems [of m L D] assms by (simp add: in_issue)
qed

subsection \<open>Update\<close>

text \<open>
  Claim C3, at the input where the code leaves it: \<open>UserUpdate\<close> has no \<open>normalise_email\<close>
  validator, so the email \<open>Jane.Doe@company.com\<close> is kept as it is written by \<open>UserUpdate\<close>
  and stored in lower case by \<open>UserCreate\<close>.
\<close>

theorem UserUpdate_email_not_normalised:
  "UserUpdate_validate strict [''email'' \<mapsto> PStr (lit ''Jane.Doe@company.com'')] =
     Inr \<lparr>UserUpdate.full_name = None, email = Some (lit ''Jane.Doe@company.com''), role = None,
          is_active = None, avatar_url = None\<rparr>
   \<and> UserCreate_validate strict ucd
       [''full_name'' \<mapsto> PStr (lit ''Jane Doe''), ''email'' \<mapsto> PStr (lit ''Jane.Doe@company.com''),
        ''password'' \<mapsto> PStr (lit ''Abcdefg1'')] =
     Inr \<lparr>UserBase.full_name = lit ''Jane Doe'', email = lit ''jane.doe@company.com'', role = INTERN,
          is_active = True, avatar_url = None, password = lit ''Abcdefg1''\<rparr>"
  by (simp add: UserUpdate_validate_def UserCreate_validate_def field_defs str_defs)

subsection \<open>Response\<close>

lemma UserResponse_id_cases:
  "UserResponse_id m =
     (case m ''id'' of None \<Rightarrow> Invalid missing
      | Some v \<Rightarrow> (case v of PStr s \<Rightarrow> Valid s | _ \<Rightarrow> Invalid string_type))"
  by (simp add: UserResponse_id_def required_def split: option.splits pyobj.splits)

lemma UserResponse_not_Raised:
  "UserResponse_id m \<noteq> Raised e" "UserResponse_full_name m \<noteq> Raised e"
  "UserResponse_email L m \<noteq> Raised e" "UserResponse_role m \<noteq> Raised e"
  "UserResponse_is_active L m \<noteq> Raised e" "UserResponse_avatar_url m \<noteq> Raised e"
  "UserResponse_created_at L m \<noteq> Raised e" "UserResponse_updated_at L m \<noteq> Raised e"
  unfolding UserResponse_id_def UserResponse_full_name_def UserResponse_email_def
    UserResponse_role_def UserResponse_is_active_def UserResponse_avatar_url_def
    UserResponse_created_at_def UserResponse_updated_at_def
  by (rule required_not_Raised, (rule optional_not_Raised)?, rule schema_not_Raised)+

lemma UserResponse_validate_Inr:
  "UserResponse_validate L m = Inr r \<longleftrightarrow>
     UserResponse_id m = Valid (UserResponse.id' r)
     \<and> UserResponse_full_name m = Valid (UserResponse.full_name r)
     \<and> UserResponse_email L m = Valid (UserResponse.email r)
     \<and> UserResponse_role m = Valid (UserResponse.role r)
     \<and> UserResponse_is_active L m = Valid (UserResponse.is_active r)
     \<and> UserResponse_avatar_url m = Valid (UserResponse.avatar_url r)
     \<and> UserResponse_created_at L m = Valid (UserResponse.created_at r)
     \<and> UserResponse_updated_at L m = Valid (UserResponse.updated_at r)"
  by (cases r) (auto simp: UserResponse_validate_def Let_def split: checked.splits)

lemma UserResponse_validate_Inl:
  "UserResponse_validate L m = Inl f \<Longrightarrow>
     f = fail (collect [issue ''id'' (UserResponse_id m),
            issue ''full_name'' (UserResponse_full_name m),
            issue ''email'' (UserResponse_email L m), issue ''role'' (UserResponse_role m),
            issue ''is_active'' (UserResponse_is_active L m),
            issue ''avatar_url'' (UserResponse_avatar_url m),
            issue ''created_at'' (UserResponse_created_at L m),
            issue ''updated_at'' (UserResponse_updated_at L m)])"
  by (auto simp: UserResponse_validate_def Let_def split: checked.splits)

lemma UserResponse_validate_not_Inr:
  "UserResponse_id m = Invalid k \<Longrightarrow> \<exists>f. UserResponse_validate L m = Inl f"
  by (auto simp: UserResponse_validate_def Let_def split: checked.splits)

lemma UserResponse_problems:
  "\<exists>es. collect [issue ''id'' (UserResponse_id m),
            issue ''full_name'' (UserResponse_full_name m),
            issue ''email'' (UserResponse_email L m), issue ''role'' (UserResponse_role m),
            issue ''is_active'' (UserResponse_is_active L m),
            issue ''avatar_url'' (UserResponse_avatar_url m),
            issue ''created_at'' (UserResponse_created_at L m),
            issue ''updated_at'' (UserResponse_updated_at L m)] = Inr es"
  by (subst collect_Inr) (auto intro!: issue_Inr_if_not_Raised simp: UserResponse_not_Raised)

text \<open>
  Claim C2, as the code has it: the \<open>id\<close> of \<open>UserResponse\<close> is a plain \<open>str\<close>. The
  construction reports the field \<open>id\<close> exactly when the mapping holds no \<open>id\<close> or an \<open>id\<close>
  that is not a string; every string is accepted as it is, whether it is a valid
  identifier or not.
\<close>

theorem UserResponse_accepts_any_str_id:
  "((\<exists>es. UserResponse_validate L m = Inl (ValidationError es) \<and> ''id'' \<in> fst ` set es)
      \<longleftrightarrow> (\<forall>s. m ''id'' \<noteq> Some (PStr s)))
   \<and> (UserResponse_validate L m = Inr r \<longrightarrow> m ''id'' = Some (PStr (UserResponse.id' r)))"
proof -
  have valid: "UserResponse_id m = Valid s \<longleftrightarrow> m ''id'' = Some (PStr s)" for s
    by (simp add: UserResponse_id_cases split: option.splits pyobj.splits)
  have invalid: "(\<exists>k. UserResponse_id m = Invalid k) \<longleftrightarrow> (\<forall>s. m ''id'' \<noteq> Some (PStr s))"
    by (simp add: UserResponse_id_cases split: option.splits pyobj.splits)
  have "(\<exists>es. UserResponse_validate L m = Inl (ValidationError es) \<and> ''id'' \<in> fst ` set es)
      \<longleftrightarrow> (\<exists>k. UserResponse_id m = Invalid k)"
  proof
    assume "\<exists>es. UserResponse_validate L m = Inl (ValidationError es) \<and> ''id'' \<in> fst ` set es"
    then obtain es k where es: "UserResponse_validate L m = Inl (ValidationError es)"
      and k: "(''id'', k) \<in> set es" by auto
    from UserResponse_validate_Inl [OF es] have "collect [issue ''id'' (UserResponse_id m),
            issue ''full_name'' (UserResponse_full_name m),
            issue ''email'' (UserResponse_email L m), issue ''role'' (UserResponse_role m),
            issue ''is_active'' (UserResponse_is_active L m),
            issue ''avatar_url'' (UserResponse_avatar_url m),
            issue ''created_at'' (UserResponse_created_at L m),
            issue ''updated_at'' (UserResponse_updated_at L m)] = Inr es"
      by (simp add: fail_ValidationError_iff)
    from collect_Inr_eq [OF this] k show "\<exists>k. UserResponse_id m = Invalid k"
      by (auto simp: in_issue)
  next
    assume "\<exists>k. UserResponse_id m = Invalid k"
    then obtain k where k: "UserResponse_id m = Invalid k" ..
    then obtain f where f: "UserResponse_validate L m = Inl f"
      using UserResponse_validate_not_Inr by blast
    obtain es where es: "collect [issue ''id'' (UserResponse_id m),
            issue ''full_name'' (UserResponse_full_name m),
            issue ''email'' (UserResponse_email L m), issue ''role'' (UserResponse_role m),
            issue ''is_active'' (UserResponse_is_active L m),
            issue ''avatar_url'' (UserResponse_avatar_url m),
            issue ''created_at'' (UserResponse_created_at L m),
            issue ''updated_at'' (UserResponse_updated_at L m)] = Inr es"
      using UserResponse_problems by blast
    have "(''id'', k) \<in> set es"
      using collect_Inr_eq [OF es] k by simp
    then have "''id'' \<in> fst ` set es" by force
    moreover have "UserResponse_validate L m = Inl (ValidationError es)"
      using UserResponse_validate_Inl [OF f] f es by simp
    ultimately show "\<exists>es. UserResponse_validate L m = Inl (ValidationError es) \<and> ''id'' \<in> fst ` set es"
      by blast
  qed
  moreover have "UserResponse_validate L m = Inr r \<longrightarrow> m ''id'' = Some (PStr (UserResponse.id' r))"
    by (simp add: UserResponse_validate_Inr valid)
  ultimately show ?thesis
    using invalid by simp
qed

theorem UserResponse_accepts_any_str_id_witness:
  "UserResponse_validate strict
     [''id'' \<mapsto> PStr (lit ''xyz''), ''full_name'' \<mapsto> PStr (lit ''Jo''),
      ''email'' \<mapsto> PStr (lit ''jo@example.org''), ''role'' \<mapsto> PStr (lit ''viewer''),
      ''is_active'' \<mapsto> PBool False, ''avatar_url'' \<mapsto> PStr (lit ''http://x/y.png''),
      ''created_at'' \<mapsto> PDatetime 5, ''updated_at'' \<mapsto> PDatetime 6] =
   Inr \<lparr>UserResponse.id' = lit ''xyz'', full_name = lit ''Jo'',
        email = lit ''jo@example.org'', role = VIEWER, is_active = False,
        avatar_url = Some (lit ''http://x/y.png''), created_at = 5, updated_at = 6\<rparr>
   \<and> (\<exists>es. UserResponse_validate strict [''id'' \<mapsto> PInt 7] = Inl (ValidationError es)
          \<and> ''id'' \<in> fst ` set es)"
proof -
  have v: "UserResponse_validate strict
     [''id'' \<mapsto> PStr (lit ''xyz''), ''full_name'' \<mapsto> PStr (lit ''Jo''),
      ''email'' \<mapsto> PStr (lit ''jo@example.org''), ''role'' \<mapsto> PStr (lit ''viewer''),
      ''is_active'' \<mapsto> PBool False, ''avatar_url'' \<mapsto> PStr (lit ''http://x/y.png''),
      ''created_at'' \<mapsto> PDatetime 5, ''updated_at'' \<mapsto> PDatetime 6] =
   Inr \<lparr>UserResponse.id' = lit ''xyz'', full_name = lit ''Jo'',
        email = lit ''jo@example.org'', role = VIEWER, is_active = False,
        avatar_url = Some (lit ''http://x/y.png''), created_at = 5, updated_at = 6\<rparr>"
    by (simp add: UserResponse_validate_def field_defs str_defs)
  show ?thesis
    using UserResponse_accepts_any_str_id [of strict "[''id'' \<mapsto> PInt 7]"] v
    by simp
qed

text \<open>
  Against claim C2 as stated: the \<open>id\<close> \<open>not-an-id\<close> is not a valid identifier, and the
  construction succeeds.
\<close>

theorem UserResponse_accepts_malformed_id:
  "UserResponse_validate strict
     [''id'' \<mapsto> PStr (lit ''not-an-id''), ''full_name'' \<mapsto> PStr (lit ''Jane Doe''),
      ''email'' \<mapsto> PStr (lit ''jane.doe@company.com''), ''role'' \<mapsto> PStr (lit ''admin''),
      ''is_active'' \<mapsto> PBool True, ''avatar_url'' \<mapsto> PNone,
      ''created_at'' \<mapsto> PDatetime 1700000000, ''updated_at'' \<mapsto> PDatetime 1700000600] =
   Inr \<lparr>UserResponse.id' = lit ''not-an-id'', full_name = lit ''Jane Doe'',
        email = lit ''jane.doe@company.com'', role = ADMIN, is_active = True, avatar_url = None,
        created_at = 1700000000, updated_at = 1700000600\<rparr>
   \<and> \<not> ObjectId_is_valid (lit ''not-an-id'')"
  by (simp add: UserResponse_validate_def field_defs str_defs ObjectId_is_valid_def)

subsection \<open>Stored\<close>

lemma UserInDB_validate_Inr:
  "UserInDB_validate L D utcnow m = Inr u \<longleftrightarrow>
     UserBase_full_name m = Valid (UserBase.full_name u)
     \<and> UserBase_email L D m = Valid (UserBase.email u)
     \<and> UserBase_role m = Valid (UserBase.role u)
     \<and> UserBase_is_active L m = Valid (UserBase.is_active u)
     \<and> UserBase_avatar_url m = Valid (UserBase.avatar_url u)
     \<and> UserInDB_id m = Valid (UserInDB.id' u)
     \<and> UserInDB_hashed_password m = Valid (UserInDB.hashed_password u)
     \<and> UserInDB_created_at L utcnow m = Valid (UserInDB.created_at u)
     \<and> UserInDB_updated_at L utcnow m = Valid (UserInDB.updated_at u)"
  by (cases u) (auto simp: UserInDB_validate_def Let_def split: checked.splits)

lemma UserInDB_validate_Inl:
  "UserInDB_validate L D utcnow m = Inl f \<Longrightarrow>
     f = fail (collect [issue ''full_name'' (UserBase_full_name m),
            issue ''email'' (UserBase_email L D m), issue ''role'' (UserBase_role m),
            issue ''is_active'' (UserBase_is_active L m),
            issue ''avatar_url'' (UserBase_avatar_url m),
            issue ''_id'' (UserInDB_id m),
            issue ''hashed_password'' (UserInDB_hashed_password m),
            issue ''created_at'' (UserInDB_created_at L utcnow m),
            issue ''updated_at'' (UserInDB_updated_at L utcnow m)])"
  by (auto simp: UserInDB_validate_def Let_def split: checked.splits)

lemma UserInDB_id_absent: "m ''_id'' = None \<Longrightarrow> m ''id'' = None \<Longrightarrow> UserInDB_id m = Valid None"
  by (simp add: UserInDB_id_def with_default_def)

lemma optional_PyObjectId: "optional PyObjectId_schema v = (if v = PNone then Valid None else Raised TypeError)"
  by (cases v) (simp_all add: PyObjectId_schema_def)

lemma UserInDB_id_cases: "UserInDB_id m = Valid None \<or> UserInDB_id m = Raised TypeError"
  by (simp add: UserInDB_id_def with_default_def optional_PyObjectId split: option.splits)

lemma UserInDB_constructed_without_id:
  "UserInDB_validate L D utcnow m = Inr u \<Longrightarrow> UserInDB.id' u = None"
  using UserInDB_id_cases [of m] by (auto simp: UserInDB_validate_Inr)

text \<open>
  Claim C9, as the code has it: the identifier of \<open>UserInDB\<close> is optional. A mapping with
  neither \<open>_id\<close> nor \<open>id\<close> is never reported for the identifier, and a \<open>UserInDB\<close> built
  from it has the identifier \<open>None\<close>.
\<close>

theorem UserInDB_id_is_optional:
  "m ''_id'' = None \<and> m ''id'' = None \<longrightarrow>
      (\<forall>u. UserInDB_validate L D utcnow m = Inr u \<longrightarrow> UserInDB.id' u = None)
      \<and> (\<forall>es. UserInDB_validate L D utcnow m = Inl (ValidationError es) \<longrightarrow>
            ''_id'' \<notin> fst ` set es)"
proof
  assume none: "m ''_id'' = None \<and> m ''id'' = None"
  then have ok: "UserInDB_id m = Valid None"
    by (simp add: UserInDB_id_absent)
  have "UserInDB.id' u = None" if "UserInDB_validate L D utcnow m = Inr u" for u
    using that ok by (simp add: UserInDB_validate_Inr)
  moreover have "''_id'' \<notin> fst ` set es"
    if es: "UserInDB_validate L D utcnow m = Inl (ValidationError es)" for es
  proof -
    from UserInDB_validate_Inl [OF es]
    have "es = concat (map entries [issue ''full_name'' (UserBase_full_name m),
          issue ''email'' (UserBase_email L D m), issue ''role'' (UserBase_role m),
          issue ''is_active'' (UserBase_is_active L m),
          issue ''avatar_url'' (UserBase_avatar_url m),
          issue ''_id'' (UserInDB_id m),
          issue ''hashed_password'' (UserInDB_hashed_password m),
          issue ''created_at'' (UserInDB_created_at L utcnow m),
          issue ''updated_at'' (UserInDB_updated_at L utcnow m)])"
      by (intro collect_Inr_eq) (simp add: fail_ValidationError_iff)
    then have "(''_id'', k) \<notin> set es" for k
      using ok by (simp add: in_issue)
    then show ?thesis by force
  qed
  ultimately show "(\<forall>u. UserInDB_validate L D utcnow m = Inr u \<longrightarrow> UserInDB.id' u = None)
      \<and> (\<forall>es. UserInDB_validate L D utcnow m = Inl (ValidationError es) \<longrightarrow>
            ''_id'' \<notin> fst ` set es)"
    by blast
qed

theorem UserInDB_id_is_optional_witness:
  "[''full_name'' \<mapsto> PStr (lit ''Jo''), ''email'' \<mapsto> PStr (lit ''jo@example.org''),
    ''hashed_password'' \<mapsto> PStr (lit ''h'')] ''_id'' = None
   \<and> [''full_name'' \<mapsto> PStr (lit ''Jo''), ''email'' \<mapsto> PStr (lit ''jo@example.org''),
    ''hashed_password'' \<mapsto> PStr (lit ''h'')] ''id'' = None
   \<and> UserInDB_validate strict ucd clock
        [''full_name'' \<mapsto> PStr (lit ''Jo''), ''email'' \<mapsto> PStr (lit ''jo@example.org''),
         ''hashed_password'' \<mapsto> PStr (lit ''h'')] =
       Inr \<lparr>UserBase.full_name = lit ''Jo'', email = lit ''jo@example.org'', role = INTERN,
        is_active = True, avatar_url = None, UserInDB.id' = None,
        UserInDB.hashed_password = lit ''h'', UserInDB.created_at = 1700000000,
        UserInDB.updated_at = 1700000001\<rparr>
   \<and> UserInDB.id' \<lparr>UserBase.full_name = lit ''Jo'', email = lit ''jo@example.org'', role = INTERN,
        is_active = True, avatar_url = None, UserInDB.id' = None,
        UserInDB.hashed_password = lit ''h'', UserInDB.created_at = 1700000000,
        UserInDB.updated_at = 1700000001\<rparr> = None
   \<and> UserInDB_validate strict ucd clock [''hashed_password'' \<mapsto> PStr (lit ''h'')] =
       Inl (ValidationError [(''full_name'', missing), (''email'', missing)])
   \<and> ''_id'' \<notin> fst ` set [(''full_name'', missing), (''email'', missing)]"
proof -
  have a: "UserInDB_validate strict ucd clock
        [''full_name'' \<mapsto> PStr (lit ''Jo''), ''email'' \<mapsto> PStr (lit ''jo@example.org''),
         ''hashed_password'' \<mapsto> PStr (lit ''h'')] =
       Inr \<lparr>UserBase.full_name = lit ''Jo'', email = lit ''jo@example.org'', role = INTERN,
        is_active = True, avatar_url = None, UserInDB.id' = None,
        UserInDB.hashed_password = lit ''h'', UserInDB.created_at = 1700000000,
        UserInDB.updated_at = 1700000001\<rparr>"
    by (simp add: UserInDB_validate_def clock_def field_defs str_defs)
  have b: "UserInDB_validate strict ucd clock [''hashed_password'' \<mapsto> PStr (lit ''h'')] =
       Inl (ValidationError [(''full_name'', missing), (''email'', missing)])"
    by (simp add: UserInDB_validate_def clock_def field_defs str_defs)
  from UserInDB_id_is_optional
    [of "[''full_name'' \<mapsto> PStr (lit ''Jo''), ''email'' \<mapsto> PStr (lit ''jo@example.org''),
         ''hashed_password'' \<mapsto> PStr (lit ''h'')]" strict ucd clock]
    UserInDB_id_is_optional [of "[''hashed_password'' \<mapsto> PStr (lit ''h'')]" strict ucd clock] a b
  show ?thesis
    by simp
qed

text \<open>
  Against claim C9 as stated: a mapping without an identifier builds a \<open>UserInDB\<close>, whose
  identifier is \<open>None\<close>.
\<close>

theorem UserInDB_without_id:
  "UserInDB_validate strict ucd (\<lambda>k. 1700000000 + int k)
     [''full_name'' \<mapsto> PStr (lit ''Jane Doe''), ''email'' \<mapsto> PStr (lit ''jane.doe@company.com''),
      ''hashed_password'' \<mapsto> PStr (lit ''$2b$12$KIX'')] =
   Inr \<lparr>UserBase.full_name = lit ''Jane Doe'', email = lit ''jane.doe@company.com'', role = INTERN,
        is_active = True, avatar_url = None, UserInDB.id' = None,
        UserInDB.hashed_password = lit ''$2b$12$KIX'', UserInDB.created_at = 1700000000,
        UserInDB.updated_at = 1700000001\<rparr>"
  by (simp add: UserInDB_validate_def field_defs str_defs)

subsection \<open>Public from Stored\<close>

lemma UserRole_schema_value: "UserRole_schema (PStr (UserRole_value c)) = Valid c"
  by (cases c) (simp_all add: UserRole_members_def lit_def)

lemma dom_UserResponse_model_dump:
  "dom (UserResponse_model_dump r) =
     {''id'', ''full_name'', ''email'', ''role'', ''is_active'', ''avatar_url'',
      ''created_at'', ''updated_at''}"
  by (auto simp: UserResponse_model_dump_def)

lemma UserResponse_from_UserInDB_without_id:
  assumes "UserInDB.id' u = None"
  shows "\<exists>es. UserResponse_from_UserInDB L u = Inl (ValidationError es)
           \<and> (''id'', string_type) \<in> set es"
proof -
  have i: "UserResponse_id (UserInDB_attributes u) = Invalid string_type"
    using assms
    by (simp add: UserResponse_id_def required_def UserInDB_attributes_def py_optional_str_def)
  then obtain f where f: "UserResponse_validate L (UserInDB_attributes u) = Inl f"
    using UserResponse_validate_not_Inr by blast
  obtain es where es: "collect [issue ''id'' (UserResponse_id (UserInDB_attributes u)),
            issue ''full_name'' (UserResponse_full_name (UserInDB_attributes u)),
            issue ''email'' (UserResponse_email L (UserInDB_attributes u)),
            issue ''role'' (UserResponse_role (UserInDB_attributes u)),
            issue ''is_active'' (UserResponse_is_active L (UserInDB_attributes u)),
            issue ''avatar_url'' (UserResponse_avatar_url (UserInDB_attributes u)),
            issue ''created_at'' (UserResponse_created_at L (UserInDB_attributes u)),
            issue ''updated_at'' (UserResponse_updated_at L (UserInDB_attributes u))] = Inr es"
    using UserResponse_problems by blast
  have "(''id'', string_type) \<in> set es"
    using collect_Inr_eq [OF es] i by simp
  moreover have "UserResponse_from_UserInDB L u = Inl (ValidationError es)"
    using UserResponse_validate_Inl [OF f] f es by (simp add: UserResponse_from_UserInDB_def)
  ultimately show ?thesis by blast
qed

text \<open>
  Whatever mapping a \<open>UserInDB\<close> is built from, it has no identifier, and building a
  \<open>UserResponse\<close> from it fails on the field \<open>id\<close>.
\<close>

lemma UserResponse_from_constructed_UserInDB:
  "UserInDB_validate L D utcnow m = Inr u \<Longrightarrow>
     \<exists>es. UserResponse_from_UserInDB L' u = Inl (ValidationError es)
          \<and> (''id'', string_type) \<in> set es"
  by (intro UserResponse_from_UserInDB_without_id UserInDB_constructed_without_id)

text \<open>
  Claim C4, at the input where the code leaves it: the document of the \<open>users\<close> collection
  carries its \<open>_id\<close>, and building the \<open>UserInDB\<close> from it ends with the \<open>TypeError\<close> of the
  call of \<open>PyObjectId.validate\<close>. Without the \<open>_id\<close> the \<open>UserInDB\<close> is built, with the
  identifier \<open>None\<close>, and building the \<open>UserResponse\<close> from it fails on the field \<open>id\<close>: no
  \<open>UserResponse\<close> is derived from a \<open>UserInDB\<close> that the class has built.
\<close>

theorem UserResponse_from_UserInDB_fails:
  "UserInDB_validate strict ucd clock jane_document = Inl (Uncaught TypeError)
   \<and> UserInDB_validate strict ucd clock (jane_document(''_id'' := None)) = Inr jane_stored
   \<and> UserResponse_from_UserInDB strict jane_stored = Inl (ValidationError [(''id'', string_type)])"
  by (simp add: UserInDB_validate_def UserResponse_from_UserInDB_def UserResponse_validate_def
      UserInDB_attributes_def py_optional_str_def jane_document_def jane_stored_def field_defs
      str_defs)

text \<open>
  The fields of a \<open>UserResponse\<close> are fixed by the class: none is named \<open>hashed_password\<close>.
\<close>

lemma UserResponse_has_no_hashed_password:
  "''hashed_password'' \<notin> dom (UserResponse_model_dump r)"
  unfolding dom_UserResponse_model_dump by simp

end
